theory Spec2Isabelle
  imports Main
begin

section \<open>The \<open>polaris catalogs\<close> command (cli/command/catalogs.py)\<close>

text \<open>
  A shallow embedding of the class \<open>CatalogsCommand\<close>: its fields, \<open>validate\<close>,
  the three \<open>_has_*_storage_info\<close> helpers, \<open>_build_storage_config_info\<close> and
  \<open>execute\<close>. Python names that start with an underscore lose it here, since an
  Isabelle name cannot start with one.
\<close>

subsection \<open>Python values\<close>

text \<open>
  The dataclass annotates its fields \<open>str\<close> and \<open>List[str]\<close>, but Python does not
  enforce annotations and the methods test the fields with \<open>not x\<close> and \<open>if x\<close>: a field
  holds a string or \<open>None\<close>. A field is therefore a \<open>string option\<close>, with \<open>None\<close> for
  Python's \<open>None\<close>. Python's truth value of such a field: \<open>None\<close> and the empty string
  (the empty list) are false, everything else is true.
\<close>

definition truthy :: "'a list option \<Rightarrow> bool" where
  "truthy x = (case x of None \<Rightarrow> False | Some s \<Rightarrow> s \<noteq> [])"

text \<open>Python's \<open>a or b\<close> returns \<open>a\<close> when \<open>a\<close> is true and \<open>b\<close> otherwise.\<close>

definition py_or :: "'a list option \<Rightarrow> 'a list option \<Rightarrow> 'a list option" where
  "py_or a b = (if truthy a then a else b)"

text \<open>
  \<open>str.upper\<close>, on ASCII text: the letters \<open>a\<close> to \<open>z\<close> (codes 97 to 122) move to
  \<open>A\<close> to \<open>Z\<close>, every other character stays. The model follows Python on strings of
  ASCII characters only.
\<close>

definition upper_char :: "char \<Rightarrow> char" where
  "upper_char c =
     (let n = (of_char c :: nat) in if 97 \<le> n \<and> n \<le> 122 then char_of (n - 32) else c)"

definition upper :: "string \<Rightarrow> string" where
  "upper s = map upper_char s"

text \<open>
  The strings on which \<open>upper\<close> is Python's \<open>str.upper\<close>: those of ASCII characters
  (codes below 128). Beyond them Python changes letters that \<open>upper\<close> leaves alone and
  may change the length, so every statement about \<open>upper\<close> of a string that is not a
  constant asks for \<open>ascii\<close>.
\<close>

definition ascii :: "string \<Rightarrow> bool" where
  "ascii s = list_all (\<lambda>c. (of_char c :: nat) < 128) s"

text \<open>
  A dict with string keys and values is a map. \<open>{**a, **b}\<close> is \<open>a ++ b\<close>: the entries of
  \<open>b\<close> win.
\<close>

type_synonym dict = "string \<rightharpoonup> string"

text \<open>
  What a method can raise: \<open>Exception(msg)\<close> from the \<open>raise\<close> statements of this
  file, \<open>AttributeError\<close> from a method call on \<open>None\<close>, and whatever a call of the
  API client raises, which is passed on unchanged.
\<close>

datatype error =
    Exception string
  | AttributeError
  | RemoteServiceError string

text \<open>One statement after another: the second runs only when the first raised nothing.\<close>

definition seq :: "error + unit \<Rightarrow> error + 'a \<Rightarrow> error + 'a" where
  "seq a b = (case a of Inl e \<Rightarrow> Inl e | Inr _ \<Rightarrow> b)"

subsection \<open>Constants of \<open>cli.constants\<close>\<close>

text \<open>
  Modelled from the spec: the module \<open>cli.constants\<close> (\<open>StorageType\<close>,
  \<open>CatalogType\<close>, \<open>Subcommands\<close>) is not among the sources. The spec names the storage
  types S3, AZURE and GCS, the catalog types INTERNAL and EXTERNAL and the subcommands
  CREATE, UPDATE, GET, LIST and DELETE, and writes the value of S3 as \<open>"s3"\<close> in its
  scenario of an S3 external catalog; the messages of \<open>validate\<close> spell the storage types
  \<open>'s3'\<close>, \<open>'azure'\<close> and \<open>'gcs'\<close>. Each constant is the lower-case string of its name.
  \<open>StorageType_S3\<close> stands for \<open>StorageType.S3.value\<close>, \<open>CatalogType_EXTERNAL\<close> for
  \<open>CatalogType.EXTERNAL.value\<close>, and so on.
\<close>

definition StorageType_S3 :: string where "StorageType_S3 = ''s3''"
definition StorageType_AZURE :: string where "StorageType_AZURE = ''azure''"
definition StorageType_GCS :: string where "StorageType_GCS = ''gcs''"

definition CatalogType_INTERNAL :: string where "CatalogType_INTERNAL = ''internal''"
definition CatalogType_EXTERNAL :: string where "CatalogType_EXTERNAL = ''external''"

definition Subcommands_CREATE :: string where "Subcommands_CREATE = ''create''"
definition Subcommands_DELETE :: string where "Subcommands_DELETE = ''delete''"
definition Subcommands_GET :: string where "Subcommands_GET = ''get''"
definition Subcommands_LIST :: string where "Subcommands_LIST = ''list''"
definition Subcommands_UPDATE :: string where "Subcommands_UPDATE = ''update''"

subsection \<open>The command and its fields\<close>

record catalogs_command =
  catalogs_subcommand :: "string option"
  catalog_type :: "string option"
  remote_url :: "string option"
  default_base_location :: "string option"
  storage_type :: "string option"
  allowed_locations :: "string list option"
  role_arn :: "string option"
  external_id :: "string option"
  user_arn :: "string option"
  tenant_id :: "string option"
  multi_tenant_app_name :: "string option"
  consent_url :: "string option"
  service_account :: "string option"
  catalog_name :: "string option"
  properties :: dict

subsection \<open>\<open>_has_aws_storage_info\<close>, \<open>_has_azure_storage_info\<close>, \<open>_has_gcs_storage_info\<close>\<close>

definition has_aws_storage_info :: "catalogs_command \<Rightarrow> string option" where
  "has_aws_storage_info self = py_or (py_or (role_arn self) (external_id self)) (user_arn self)"

definition has_azure_storage_info :: "catalogs_command \<Rightarrow> string option" where
  "has_azure_storage_info self =
     py_or (py_or (tenant_id self) (multi_tenant_app_name self)) (consent_url self)"

definition has_gcs_storage_info :: "catalogs_command \<Rightarrow> string option" where
  "has_gcs_storage_info self = service_account self"

subsection \<open>\<open>validate\<close>\<close>

text \<open>
  \<open>validate\<close> is three statements in a row. Each is a definition of its own here:
  the \<open>if\<close> on CREATE (lines 58 to 68), the \<open>if\<close> on UPDATE (lines 69 to 73) and the
  \<open>if\<close>/\<open>elif\<close> chain on the storage type (lines 75 to 88).
\<close>

definition validate_create :: "catalogs_command \<Rightarrow> error + unit" where
  "validate_create self =
     (if catalogs_subcommand self = Some Subcommands_CREATE then
        seq (if \<not> truthy (storage_type self)
             then Inl (Exception ''Missing required argument: --storage-type'')
             else Inr ())
       (seq (if \<not> truthy (default_base_location self)
             then Inl (Exception ''Missing required argument: --default-base-location'')
             else Inr ())
            (if catalog_type self = Some CatalogType_EXTERNAL then
               (if \<not> truthy (remote_url self)
                then Inl (Exception (''Missing required argument for '' @ CatalogType_EXTERNAL
                                       @ '' catalog: --remote-url''))
                else Inr ())
             else Inr ()))
      else Inr ())"

definition validate_update :: "catalogs_command \<Rightarrow> error + unit" where
  "validate_update self =
     (if catalogs_subcommand self = Some Subcommands_UPDATE then
        (if truthy (allowed_locations self) then
           (if \<not> truthy (storage_type self)
            then Inl (Exception
              ''Missing required argument when updating allowed locations for a catalog: --storage-type'')
            else Inr ())
         else Inr ())
      else Inr ())"

definition validate_storage :: "catalogs_command \<Rightarrow> error + unit" where
  "validate_storage self =
     (if storage_type self = Some StorageType_S3 then
        seq (if \<not> truthy (role_arn self)
             then Inl (Exception ''Missing required argument for storage type 's3': --role-arn'')
             else Inr ())
            (if truthy (has_azure_storage_info self) \<or> truthy (has_gcs_storage_info self)
             then Inl (Exception
               ''Storage type 's3' supports the storage configurations --role-arn, --external-id, and --user-arn'')
             else Inr ())
      else if storage_type self = Some StorageType_AZURE then
        seq (if \<not> truthy (tenant_id self)
             then Inl (Exception ''Missing required argument for storage type 'azure': --tenant-id'')
             else Inr ())
            (if truthy (has_aws_storage_info self) \<or> truthy (has_gcs_storage_info self)
             then Inl (Exception
               ''Storage type 'azure' supports the storage configurations --tenant-id, --multi-tenant-app-name, and --consent-url'')
             else Inr ())
      else if truthy (has_aws_storage_info self) \<or> truthy (has_azure_storage_info self)
        then Inl (Exception ''Storage type 'gcs' supports the storage configuration: --service-account'')
      else Inr ())"

definition validate :: "catalogs_command \<Rightarrow> error + unit" where
  "validate self = seq (validate_create self) (seq (validate_update self) (validate_storage self))"

subsection \<open>\<open>_build_storage_config_info\<close>\<close>

text \<open>
  Modelled from the spec: the classes of \<open>polaris.management\<close> are not among the
  sources. A storage config is one of three shapes, each holding the keyword arguments
  that \<open>_build_storage_config_info\<close> passes to its constructor, in the order of the call.
\<close>

datatype storage_config_info =
    AwsStorageConfigInfo
      (cfg_storage_type: string) (cfg_allowed_locations: "string list option")
      (cfg_role_arn: "string option") (cfg_external_id: "string option")
      (cfg_user_arn: "string option")
  | AzureStorageConfigInfo
      (cfg_storage_type: string) (cfg_allowed_locations: "string list option")
      (cfg_tenant_id: "string option") (cfg_multi_tenant_app_name: "string option")
      (cfg_consent_url: "string option")
  | GcpStorageConfigInfo
      (cfg_storage_type: string) (cfg_allowed_locations: "string list option")
      (cfg_tenant_id: "string option") (cfg_multi_tenant_app_name: "string option")

text \<open>
  \<open>config\<close> starts as \<open>None\<close>. A storage type that is \<open>None\<close> equals none of the three
  constants, so \<open>upper\<close> is only ever called on a string.
\<close>

definition build_storage_config_info :: "catalogs_command \<Rightarrow> storage_config_info option" where
  "build_storage_config_info self =
     (case storage_type self of
        None \<Rightarrow> None
      | Some st \<Rightarrow>
          if st = StorageType_S3 then
            Some (AwsStorageConfigInfo (upper st) (allowed_locations self)
                    (role_arn self) (external_id self) (user_arn self))
          else if st = StorageType_AZURE then
            Some (AzureStorageConfigInfo (upper st) (allowed_locations self)
                    (tenant_id self) (multi_tenant_app_name self) (consent_url self))
          else if st = StorageType_GCS then
            Some (GcpStorageConfigInfo (upper st) (allowed_locations self)
                    (tenant_id self) (multi_tenant_app_name self))
          else None)"

subsection \<open>The management API\<close>

text \<open>
  Modelled from the spec: the request classes and the client \<open>PolarisDefaultApi\<close> of
  \<open>polaris.management\<close> are not among the sources. The request classes hold the keyword
  arguments of the constructor calls in \<open>execute\<close>. A catalog as the service returns it has
  a name, a type, a properties map and an entity version (spec, section 6).
\<close>

datatype catalog_properties =
  CatalogProperties (cp_default_base_location: "string option") (cp_additional_properties: dict)

datatype create_catalog =
    ExternalCatalog
      (cc_type: string) (cc_name: "string option")
      (cc_storage_config_info: "storage_config_info option")
      (cc_remote_url: "string option") (cc_properties: catalog_properties)
  | PolarisCatalog
      (cc_type: string) (cc_name: "string option")
      (cc_storage_config_info: "storage_config_info option") (cc_properties: catalog_properties)

datatype create_catalog_request = CreateCatalogRequest (cr_catalog: create_catalog)

record catalog =
  cat_type :: string
  cat_name :: string
  cat_properties :: dict
  entity_version :: int

text \<open>
  \<open>execute\<close> builds an \<open>UpdateCatalogRequest\<close> with or without the keyword
  \<open>storage_config_info\<close>: \<open>ur_storage_config_info\<close> is \<open>None\<close> when the keyword is not
  passed and \<open>Some c\<close> when it is passed with the value \<open>c\<close> (which may itself be Python's
  \<open>None\<close>).
\<close>

datatype update_catalog_request =
  UpdateCatalogRequest
    (ur_current_entity_version: int) (ur_catalog: catalog)
    (ur_storage_config_info: "storage_config_info option option")

text \<open>
  The client answers each call with a result or an error. \<open>to_json\<close> stands for the
  method \<open>Catalog.to_json\<close>.
\<close>

record polaris_default_api =
  create_catalog :: "create_catalog_request \<Rightarrow> error + unit"
  delete_catalog :: "string option \<Rightarrow> error + unit"
  get_catalog :: "string option \<Rightarrow> error + catalog"
  list_catalogs :: "error + catalog list"
  update_catalog :: "string option \<Rightarrow> update_catalog_request \<Rightarrow> error + unit"
  to_json :: "catalog \<Rightarrow> string"

text \<open>What \<open>execute\<close> does to the outside, in order: the calls of the client and the lines printed.\<close>

datatype event =
    CreateCatalog create_catalog_request
  | DeleteCatalog "string option"
  | GetCatalog "string option"
  | ListCatalogs
  | UpdateCatalog "string option" update_catalog_request
  | Print string

subsection \<open>\<open>execute\<close>\<close>

text \<open>\<open>x.upper()\<close> on a field: \<open>None\<close> has no such method.\<close>

definition py_upper :: "string option \<Rightarrow> error + string" where
  "py_upper x = (case x of None \<Rightarrow> Inl AttributeError | Some s \<Rightarrow> Inr (upper s))"

text \<open>A field inside an f-string.\<close>

definition py_str :: "string option \<Rightarrow> string" where
  "py_str x = (case x of None \<Rightarrow> ''None'' | Some s \<Rightarrow> s)"

text \<open>Lines 164 to 167: the dict that replaces the properties of the fetched catalog.\<close>

definition update_properties :: "catalogs_command \<Rightarrow> dict" where
  "update_properties self =
     (let default_base_location_properties =
        (case default_base_location self of
           None \<Rightarrow> Map.empty
         | Some d \<Rightarrow> if d \<noteq> [] then [''default-base-location'' \<mapsto> d] else Map.empty)
      in default_base_location_properties ++ properties self)"

text \<open>
  \<open>execute\<close> returns the events it caused and how it ended. The arguments of a
  constructor call are evaluated before the call, so an \<open>AttributeError\<close> from
  \<open>self.catalog_type.upper()\<close> comes before any call of the client.
\<close>

definition execute :: "catalogs_command \<Rightarrow> polaris_default_api \<Rightarrow> event list \<times> (error + unit)" where
  "execute self api =
     (if catalogs_subcommand self = Some Subcommands_CREATE then
        (let config = build_storage_config_info self in
         if catalog_type self = Some CatalogType_EXTERNAL then
           (case py_upper (catalog_type self) of
              Inl e \<Rightarrow> ([], Inl e)
            | Inr t \<Rightarrow>
                (let request = CreateCatalogRequest
                       (ExternalCatalog t (catalog_name self) config (remote_url self)
                          (CatalogProperties (default_base_location self) (properties self)))
                 in ([CreateCatalog request], create_catalog api request)))
         else
           (case py_upper (catalog_type self) of
              Inl e \<Rightarrow> ([], Inl e)
            | Inr t \<Rightarrow>
                (let request = CreateCatalogRequest
                       (PolarisCatalog t (catalog_name self) config
                          (CatalogProperties (default_base_location self) (properties self)))
                 in ([CreateCatalog request], create_catalog api request))))
      else if catalogs_subcommand self = Some Subcommands_DELETE then
        ([DeleteCatalog (catalog_name self)], delete_catalog api (catalog_name self))
      else if catalogs_subcommand self = Some Subcommands_GET then
        (case get_catalog api (catalog_name self) of
           Inl e \<Rightarrow> ([GetCatalog (catalog_name self)], Inl e)
         | Inr c \<Rightarrow> ([GetCatalog (catalog_name self), Print (to_json api c)], Inr ()))
      else if catalogs_subcommand self = Some Subcommands_LIST then
        (case list_catalogs api of
           Inl e \<Rightarrow> ([ListCatalogs], Inl e)
         | Inr cs \<Rightarrow> (ListCatalogs # map (\<lambda>c. Print (to_json api c)) cs, Inr ()))
      else if catalogs_subcommand self = Some Subcommands_UPDATE then
        (case get_catalog api (catalog_name self) of
           Inl e \<Rightarrow> ([GetCatalog (catalog_name self)], Inl e)
         | Inr fetched \<Rightarrow>
             (let catalog = fetched\<lparr>cat_properties := update_properties self\<rparr>;
                  request =
                    (if truthy (allowed_locations self) \<or> truthy (has_aws_storage_info self)
                        \<or> truthy (has_azure_storage_info self) \<or> truthy (has_gcs_storage_info self)
                     then UpdateCatalogRequest (entity_version catalog) catalog
                            (Some (build_storage_config_info self))
                     else UpdateCatalogRequest (entity_version catalog) catalog None)
              in ([GetCatalog (catalog_name self), UpdateCatalog (catalog_name self) request],
                  update_catalog api (catalog_name self) request)))
      else ([], Inl (Exception (py_str (catalogs_subcommand self) @ '' is not supported in the CLI''))))"

subsection \<open>Example invocations\<close>

text \<open>A command with no option given, a catalog as the service holds it, and a client that accepts every call.\<close>

definition blank :: catalogs_command where
  "blank = \<lparr>catalogs_subcommand = None, catalog_type = None, remote_url = None,
     default_base_location = None, storage_type = None, allowed_locations = None,
     role_arn = None, external_id = None, user_arn = None, tenant_id = None,
     multi_tenant_app_name = None, consent_url = None, service_account = None,
     catalog_name = None, properties = Map.empty\<rparr>"

definition example_catalog :: catalog where
  "example_catalog = \<lparr>cat_type = ''INTERNAL'', cat_name = ''c1'',
     cat_properties = [''a'' \<mapsto> ''1''], entity_version = 7\<rparr>"

definition example_api :: polaris_default_api where
  "example_api = \<lparr>create_catalog = (\<lambda>request. Inr ()), delete_catalog = (\<lambda>name. Inr ()),
     get_catalog = (\<lambda>name. Inr example_catalog), list_catalogs = Inr [example_catalog],
     update_catalog = (\<lambda>name request. Inr ()), to_json = cat_name\<rparr>"

section \<open>Properties\<close>

subsection \<open>Truth values, sequencing and the constants\<close>

lemma truthy_simps [simp]: "truthy None = False" "truthy (Some s) = (s \<noteq> [])"
  by (simp_all add: truthy_def)

lemma truthy_py_or [simp]: "truthy (py_or a b) = (truthy a \<or> truthy b)"
  by (simp add: py_or_def)

lemma seq_simps [simp]: "seq (Inl e) b = Inl e" "seq (Inr u) b = b"
  by (simp_all add: seq_def)

lemma truthy_has_aws: "truthy (has_aws_storage_info self) =
    (truthy (role_arn self) \<or> truthy (external_id self) \<or> truthy (user_arn self))"
  by (simp add: has_aws_storage_info_def)

lemma truthy_has_azure: "truthy (has_azure_storage_info self) =
    (truthy (tenant_id self) \<or> truthy (multi_tenant_app_name self) \<or> truthy (consent_url self))"
  by (simp add: has_azure_storage_info_def)

lemma truthy_has_gcs: "truthy (has_gcs_storage_info self) = truthy (service_account self)"
  by (simp add: has_gcs_storage_info_def)

lemmas constants_defs = StorageType_S3_def StorageType_AZURE_def StorageType_GCS_def
  CatalogType_INTERNAL_def CatalogType_EXTERNAL_def
  Subcommands_CREATE_def Subcommands_DELETE_def Subcommands_GET_def Subcommands_LIST_def
  Subcommands_UPDATE_def

lemma StorageType_distinct:
  "StorageType_S3 \<noteq> StorageType_AZURE" "StorageType_S3 \<noteq> StorageType_GCS"
  "StorageType_AZURE \<noteq> StorageType_GCS" "StorageType_AZURE \<noteq> StorageType_S3"
  "StorageType_GCS \<noteq> StorageType_S3" "StorageType_GCS \<noteq> StorageType_AZURE"
  "StorageType_S3 \<noteq> []" "StorageType_AZURE \<noteq> []" "StorageType_GCS \<noteq> []"
  by (simp_all add: constants_defs)

lemma Subcommands_distinct:
  "Subcommands_UPDATE \<noteq> Subcommands_CREATE" "Subcommands_UPDATE \<noteq> Subcommands_DELETE"
  "Subcommands_UPDATE \<noteq> Subcommands_GET" "Subcommands_UPDATE \<noteq> Subcommands_LIST"
  "Subcommands_CREATE \<noteq> Subcommands_UPDATE"
  by (simp_all add: constants_defs)

lemma upper_S3: "upper StorageType_S3 = ''S3''" by code_simp
lemma upper_AZURE: "upper StorageType_AZURE = ''AZURE''" by code_simp
lemma upper_GCS: "upper StorageType_GCS = ''GCS''" by code_simp
lemma upper_EXTERNAL: "upper CatalogType_EXTERNAL = ''EXTERNAL''" by code_simp
lemma upper_INTERNAL: "upper CatalogType_INTERNAL = ''INTERNAL''" by code_simp

subsection \<open>The storage config\<close>

text \<open>
  C7. With the storage type GCS, \<open>_build_storage_config_info\<close> returns a
  \<open>GcpStorageConfigInfo\<close> whose type is \<open>GCS\<close>, whose allowed locations are those of the
  command and whose other two fields are the command's \<open>tenant_id\<close> and
  \<open>multi_tenant_app_name\<close>. The service account has no part in it: whatever it is set
  to, the config is the same.
\<close>

theorem build_storage_config_info_gcs:
  assumes "storage_type self = Some StorageType_GCS"
  shows "build_storage_config_info self =
           Some (GcpStorageConfigInfo ''GCS'' (allowed_locations self)
                   (tenant_id self) (multi_tenant_app_name self))
         \<and> build_storage_config_info (self\<lparr>service_account := sa\<rparr>) = build_storage_config_info self"
  using assms by (simp add: build_storage_config_info_def StorageType_distinct upper_GCS)

theorem build_storage_config_info_gcs_witness:
  "storage_type (blank\<lparr>storage_type := Some StorageType_GCS, service_account := Some ''sa@p'',
       allowed_locations := Some [''gs://b/p''], tenant_id := Some ''t''\<rparr>) = Some StorageType_GCS
   \<and> build_storage_config_info (blank\<lparr>storage_type := Some StorageType_GCS,
        service_account := Some ''sa@p'', allowed_locations := Some [''gs://b/p''],
        tenant_id := Some ''t''\<rparr>)
      = Some (GcpStorageConfigInfo ''GCS'' (Some [''gs://b/p'']) (Some ''t'') None)"
  using build_storage_config_info_gcs [of "blank\<lparr>storage_type := Some StorageType_GCS,
        service_account := Some ''sa@p'', allowed_locations := Some [''gs://b/p''],
        tenant_id := Some ''t''\<rparr>"]
  by (simp add: blank_def)

text \<open>
  C8. \<open>_build_storage_config_info\<close> is a function of the storage type, the allowed
  locations and the six AWS and AZURE fields: two commands that agree on these (in
  particular two equal commands) get the same config. A storage type other than S3,
  AZURE and GCS, also none at all, gives no config.
\<close>

theorem build_storage_config_info_pure:
  "(storage_type a = storage_type b \<and> allowed_locations a = allowed_locations b
      \<and> role_arn a = role_arn b \<and> external_id a = external_id b \<and> user_arn a = user_arn b
      \<and> tenant_id a = tenant_id b \<and> multi_tenant_app_name a = multi_tenant_app_name b
      \<and> consent_url a = consent_url b
     \<longrightarrow> build_storage_config_info a = build_storage_config_info b)
   \<and> (storage_type self \<notin> {Some StorageType_S3, Some StorageType_AZURE, Some StorageType_GCS}
     \<longrightarrow> build_storage_config_info self = None)"
  by (auto simp add: build_storage_config_info_def split: option.splits)

theorem build_storage_config_info_pure_witness:
  "build_storage_config_info (blank\<lparr>storage_type := Some StorageType_S3, role_arn := Some ''r'',
       catalog_name := Some ''c1''\<rparr>)
     = build_storage_config_info (blank\<lparr>storage_type := Some StorageType_S3, role_arn := Some ''r'',
       catalog_name := Some ''c2'', service_account := Some ''sa''\<rparr>)
   \<and> storage_type (blank\<lparr>storage_type := Some ''file''\<rparr>)
       \<notin> {Some StorageType_S3, Some StorageType_AZURE, Some StorageType_GCS}
   \<and> build_storage_config_info (blank\<lparr>storage_type := Some ''file''\<rparr>) = None"
  using build_storage_config_info_pure
    [of "blank\<lparr>storage_type := Some StorageType_S3, role_arn := Some ''r'',
           catalog_name := Some ''c1''\<rparr>"
        "blank\<lparr>storage_type := Some StorageType_S3, role_arn := Some ''r'',
           catalog_name := Some ''c2'', service_account := Some ''sa''\<rparr>"
        "blank\<lparr>storage_type := Some ''file''\<rparr>"]
  by (simp add: blank_def constants_defs)

subsection \<open>\<open>validate\<close>\<close>

text \<open>With a storage type given, the statement on UPDATE raises nothing.\<close>

lemma validate_storage_passes_update:
  "truthy (storage_type self) \<Longrightarrow> validate_update self = Inr ()"
  by (simp add: validate_update_def)

text \<open>The statement on CREATE raises nothing or one of its three messages.\<close>

lemma validate_create_cases:
  "validate_create self = Inr ()
   \<or> validate_create self = Inl (Exception ''Missing required argument: --storage-type'')
   \<or> validate_create self = Inl (Exception ''Missing required argument: --default-base-location'')
   \<or> validate_create self
       = Inl (Exception ''Missing required argument for external catalog: --remote-url'')"
  by (simp add: validate_create_def CatalogType_EXTERNAL_def)

text \<open>
  C3. On CREATE, \<open>validate\<close> fails when the storage type is missing, when the default
  base location is missing, and when the catalog type is EXTERNAL and the remote URL is
  missing, each with its own message (the spec's ValidationError is the \<open>Exception\<close> that
  \<open>validate\<close> raises). When all of them are there, the statement on CREATE raises nothing
  and the outcome of \<open>validate\<close> is that of the checks on the storage type.
\<close>

theorem validate_create_required:
  assumes "catalogs_subcommand self = Some Subcommands_CREATE"
  shows "(\<not> truthy (storage_type self) \<longrightarrow>
            validate self = Inl (Exception ''Missing required argument: --storage-type''))
       \<and> (truthy (storage_type self) \<and> \<not> truthy (default_base_location self) \<longrightarrow>
            validate self = Inl (Exception ''Missing required argument: --default-base-location''))
       \<and> (truthy (storage_type self) \<and> truthy (default_base_location self)
            \<and> catalog_type self = Some CatalogType_EXTERNAL \<and> \<not> truthy (remote_url self) \<longrightarrow>
            validate self = Inl (Exception ''Missing required argument for external catalog: --remote-url''))
       \<and> (truthy (storage_type self) \<and> truthy (default_base_location self)
            \<and> (catalog_type self = Some CatalogType_EXTERNAL \<longrightarrow> truthy (remote_url self)) \<longrightarrow>
            validate_create self = Inr () \<and> validate self = validate_storage self)"
  using assms
  by (simp add: validate_def validate_create_def validate_update_def Subcommands_distinct
      CatalogType_EXTERNAL_def)

theorem validate_create_required_witness:
  "validate (blank\<lparr>catalogs_subcommand := Some Subcommands_CREATE,
       default_base_location := Some ''s3://b/p''\<rparr>)
     = Inl (Exception ''Missing required argument: --storage-type'')
   \<and> validate (blank\<lparr>catalogs_subcommand := Some Subcommands_CREATE,
       storage_type := Some StorageType_S3, role_arn := Some ''arn:aws:iam::1:role/r''\<rparr>)
     = Inl (Exception ''Missing required argument: --default-base-location'')
   \<and> validate (blank\<lparr>catalogs_subcommand := Some Subcommands_CREATE,
       catalog_type := Some CatalogType_EXTERNAL, storage_type := Some StorageType_S3,
       default_base_location := Some ''s3://b/p'', role_arn := Some ''arn:aws:iam::1:role/r''\<rparr>)
     = Inl (Exception ''Missing required argument for external catalog: --remote-url'')
   \<and> validate (blank\<lparr>catalogs_subcommand := Some Subcommands_CREATE,
       catalog_type := Some CatalogType_EXTERNAL, catalog_name := Some ''c1'',
       storage_type := Some StorageType_S3, default_base_location := Some ''s3://b/p'',
       remote_url := Some ''https://x'', role_arn := Some ''arn:aws:iam::1:role/r''\<rparr>)
     = Inr ()"
  using
    validate_create_required [of "blank\<lparr>catalogs_subcommand := Some Subcommands_CREATE,
       default_base_location := Some ''s3://b/p''\<rparr>"]
    validate_create_required [of "blank\<lparr>catalogs_subcommand := Some Subcommands_CREATE,
       storage_type := Some StorageType_S3, role_arn := Some ''arn:aws:iam::1:role/r''\<rparr>"]
    validate_create_required [of "blank\<lparr>catalogs_subcommand := Some Subcommands_CREATE,
       catalog_type := Some CatalogType_EXTERNAL, storage_type := Some StorageType_S3,
       default_base_location := Some ''s3://b/p'', role_arn := Some ''arn:aws:iam::1:role/r''\<rparr>"]
    validate_create_required [of "blank\<lparr>catalogs_subcommand := Some Subcommands_CREATE,
       catalog_type := Some CatalogType_EXTERNAL, catalog_name := Some ''c1'',
       storage_type := Some StorageType_S3, default_base_location := Some ''s3://b/p'',
       remote_url := Some ''https://x'', role_arn := Some ''arn:aws:iam::1:role/r''\<rparr>"]
  by (simp add: blank_def StorageType_distinct validate_storage_def truthy_has_azure truthy_has_gcs)

text \<open>
  C4. With the storage type S3, \<open>validate\<close> fails when \<open>role_arn\<close> is missing, and,
  with \<open>role_arn\<close> there, when one of \<open>tenant_id\<close>, \<open>multi_tenant_app_name\<close>,
  \<open>consent_url\<close> and \<open>service_account\<close> is set. The missing \<open>role_arn\<close> comes first:
  without it the checks on the storage type report it whatever else is set, and
  \<open>validate\<close> never reports the conflict. The message is that of the storage checks
  whenever the statement on CREATE raises nothing.
\<close>

theorem validate_s3:
  assumes "storage_type self = Some StorageType_S3"
  shows "(\<not> truthy (role_arn self) \<longrightarrow>
            isl (validate self)
          \<and> validate self \<noteq> Inl (Exception
              ''Storage type 's3' supports the storage configurations --role-arn, --external-id, and --user-arn'')
          \<and> validate_storage self
              = Inl (Exception ''Missing required argument for storage type 's3': --role-arn'')
          \<and> (validate_create self = Inr () \<longrightarrow> validate self
              = Inl (Exception ''Missing required argument for storage type 's3': --role-arn'')))
       \<and> (truthy (role_arn self)
          \<and> (truthy (tenant_id self) \<or> truthy (multi_tenant_app_name self)
             \<or> truthy (consent_url self) \<or> truthy (service_account self)) \<longrightarrow>
            isl (validate self)
          \<and> validate_storage self = Inl (Exception
              ''Storage type 's3' supports the storage configurations --role-arn, --external-id, and --user-arn'')
          \<and> (validate_create self = Inr () \<longrightarrow> validate self = Inl (Exception
              ''Storage type 's3' supports the storage configurations --role-arn, --external-id, and --user-arn'')))"
proof -
  have st: "truthy (storage_type self)"
    using assms by (simp add: StorageType_distinct)
  have v: "validate self = seq (validate_create self) (validate_storage self)"
    by (simp add: validate_def validate_storage_passes_update [OF st])
  have fails: "isl (validate_storage self) \<Longrightarrow> isl (validate self)"
    unfolding v by (cases "validate_create self") simp_all
  have r1: "\<not> truthy (role_arn self) \<Longrightarrow> validate_storage self
      = Inl (Exception ''Missing required argument for storage type 's3': --role-arn'')"
    using assms by (simp add: validate_storage_def)
  have r2: "truthy (role_arn self) \<Longrightarrow> truthy (tenant_id self) \<or> truthy (multi_tenant_app_name self)
             \<or> truthy (consent_url self) \<or> truthy (service_account self) \<Longrightarrow>
      validate_storage self = Inl (Exception
              ''Storage type 's3' supports the storage configurations --role-arn, --external-id, and --user-arn'')"
    using assms by (simp add: validate_storage_def truthy_has_azure truthy_has_gcs)
  show ?thesis
    using r1 r2 fails validate_create_cases [of self] by (auto simp add: v)
qed

theorem validate_s3_witness:
  "validate (blank\<lparr>catalogs_subcommand := Some Subcommands_UPDATE,
       storage_type := Some StorageType_S3, tenant_id := Some ''t''\<rparr>)
     = Inl (Exception ''Missing required argument for storage type 's3': --role-arn'')
   \<and> validate (blank\<lparr>catalogs_subcommand := Some Subcommands_UPDATE,
       storage_type := Some StorageType_S3, role_arn := Some ''arn:aws:iam::1:role/r'',
       service_account := Some ''sa''\<rparr>)
     = Inl (Exception
         ''Storage type 's3' supports the storage configurations --role-arn, --external-id, and --user-arn'')"
  using
    validate_s3 [of "blank\<lparr>catalogs_subcommand := Some Subcommands_UPDATE,
       storage_type := Some StorageType_S3, tenant_id := Some ''t''\<rparr>"]
    validate_s3 [of "blank\<lparr>catalogs_subcommand := Some Subcommands_UPDATE,
       storage_type := Some StorageType_S3, role_arn := Some ''arn:aws:iam::1:role/r'',
       service_account := Some ''sa''\<rparr>"]
  by (simp add: blank_def validate_create_def Subcommands_distinct)

text \<open>
  C5. With the storage type AZURE, \<open>validate\<close> fails when \<open>tenant_id\<close> is missing, and,
  with \<open>tenant_id\<close> there, when one of \<open>role_arn\<close>, \<open>external_id\<close>, \<open>user_arn\<close> and
  \<open>service_account\<close> is set. The missing \<open>tenant_id\<close> comes first.
\<close>

theorem validate_azure:
  assumes "storage_type self = Some StorageType_AZURE"
  shows "(\<not> truthy (tenant_id self) \<longrightarrow>
            isl (validate self)
          \<and> validate self \<noteq> Inl (Exception
              ''Storage type 'azure' supports the storage configurations --tenant-id, --multi-tenant-app-name, and --consent-url'')
          \<and> validate_storage self
              = Inl (Exception ''Missing required argument for storage type 'azure': --tenant-id'')
          \<and> (validate_create self = Inr () \<longrightarrow> validate self
              = Inl (Exception ''Missing required argument for storage type 'azure': --tenant-id'')))
       \<and> (truthy (tenant_id self)
          \<and> (truthy (role_arn self) \<or> truthy (external_id self)
             \<or> truthy (user_arn self) \<or> truthy (service_account self)) \<longrightarrow>
            isl (validate self)
          \<and> validate_storage self = Inl (Exception
              ''Storage type 'azure' supports the storage configurations --tenant-id, --multi-tenant-app-name, and --consent-url'')
          \<and> (validate_create self = Inr () \<longrightarrow> validate self = Inl (Exception
              ''Storage type 'azure' supports the storage configurations --tenant-id, --multi-tenant-app-name, and --consent-url'')))"
proof -
  have st: "truthy (storage_type self)"
    using assms by (simp add: StorageType_distinct)
  have v: "validate self = seq (validate_create self) (validate_storage self)"
    by (simp add: validate_def validate_storage_passes_update [OF st])
  have fails: "isl (validate_storage self) \<Longrightarrow> isl (validate self)"
    unfolding v by (cases "validate_create self") simp_all
  have r1: "\<not> truthy (tenant_id self) \<Longrightarrow> validate_storage self
      = Inl (Exception ''Missing required argument for storage type 'azure': --tenant-id'')"
    using assms by (simp add: validate_storage_def StorageType_distinct)
  have r2: "truthy (tenant_id self) \<Longrightarrow> truthy (role_arn self) \<or> truthy (external_id self)
             \<or> truthy (user_arn self) \<or> truthy (service_account self) \<Longrightarrow>
      validate_storage self = Inl (Exception
              ''Storage type 'azure' supports the storage configurations --tenant-id, --multi-tenant-app-name, and --consent-url'')"
    using assms by (simp add: validate_storage_def truthy_has_aws truthy_has_gcs StorageType_distinct)
  show ?thesis
    using r1 r2 fails validate_create_cases [of self] by (auto simp add: v)
qed

theorem validate_azure_witness:
  "validate (blank\<lparr>catalogs_subcommand := Some Subcommands_UPDATE,
       storage_type := Some StorageType_AZURE, role_arn := Some ''arn:aws:iam::1:role/r''\<rparr>)
     = Inl (Exception ''Missing required argument for storage type 'azure': --tenant-id'')
   \<and> validate (blank\<lparr>catalogs_subcommand := Some Subcommands_UPDATE,
       storage_type := Some StorageType_AZURE, tenant_id := Some ''t'',
       external_id := Some ''x''\<rparr>)
     = Inl (Exception
         ''Storage type 'azure' supports the storage configurations --tenant-id, --multi-tenant-app-name, and --consent-url'')"
  using
    validate_azure [of "blank\<lparr>catalogs_subcommand := Some Subcommands_UPDATE,
       storage_type := Some StorageType_AZURE, role_arn := Some ''arn:aws:iam::1:role/r''\<rparr>"]
    validate_azure [of "blank\<lparr>catalogs_subcommand := Some Subcommands_UPDATE,
       storage_type := Some StorageType_AZURE, tenant_id := Some ''t'',
       external_id := Some ''x''\<rparr>"]
  by (simp add: blank_def validate_create_def Subcommands_distinct)

text \<open>
  C2, as the spec states it, fails: with no storage type and no service account, an
  UPDATE that sets \<open>role_arn\<close> is rejected by the last branch of the storage checks.
\<close>

theorem validate_unset_storage_type_counterexample:
  "storage_type (blank\<lparr>catalogs_subcommand := Some Subcommands_UPDATE,
       catalog_name := Some ''c1'', role_arn := Some ''arn:aws:iam::1:role/r''\<rparr>) = None
   \<and> service_account (blank\<lparr>catalogs_subcommand := Some Subcommands_UPDATE,
       catalog_name := Some ''c1'', role_arn := Some ''arn:aws:iam::1:role/r''\<rparr>) = None
   \<and> validate (blank\<lparr>catalogs_subcommand := Some Subcommands_UPDATE,
       catalog_name := Some ''c1'', role_arn := Some ''arn:aws:iam::1:role/r''\<rparr>)
     = Inl (Exception ''Storage type 'gcs' supports the storage configuration: --service-account'')"
  by (simp add: blank_def validate_def validate_create_def validate_update_def
      validate_storage_def truthy_has_aws Subcommands_distinct)

text \<open>
  C2, amended. The last branch of the storage checks is reached exactly when the storage
  type is neither S3 nor AZURE: GCS, any other string, or none; the service account plays
  no part. There the check fails exactly when an AWS or an AZURE field is set. With S3 or
  AZURE its message never appears. The storage checks decide \<open>validate\<close> for every
  subcommand, whenever the statements on CREATE and UPDATE raise nothing.
\<close>

theorem validate_storage_otherwise:
  "(storage_type self \<notin> {Some StorageType_S3, Some StorageType_AZURE} \<longrightarrow>
      validate_storage self =
        (if truthy (role_arn self) \<or> truthy (external_id self) \<or> truthy (user_arn self)
            \<or> truthy (tenant_id self) \<or> truthy (multi_tenant_app_name self)
            \<or> truthy (consent_url self)
         then Inl (Exception
           ''Storage type 'gcs' supports the storage configuration: --service-account'')
         else Inr ())
      \<and> validate_storage (self\<lparr>service_account := sa\<rparr>) = validate_storage self)
   \<and> (storage_type self \<in> {Some StorageType_S3, Some StorageType_AZURE} \<longrightarrow>
      validate_storage self \<noteq> Inl (Exception
        ''Storage type 'gcs' supports the storage configuration: --service-account''))
   \<and> (validate_create self = Inr () \<and> validate_update self = Inr () \<longrightarrow>
      validate self = validate_storage self)"
  by (auto simp add: validate_def validate_storage_def truthy_has_aws truthy_has_azure
      StorageType_distinct)

theorem validate_storage_otherwise_witness:
  "validate (blank\<lparr>catalogs_subcommand := Some Subcommands_GET, catalog_name := Some ''c1'',
       tenant_id := Some ''t''\<rparr>)
     = Inl (Exception ''Storage type 'gcs' supports the storage configuration: --service-account'')
   \<and> validate (blank\<lparr>catalogs_subcommand := Some Subcommands_GET, catalog_name := Some ''c1'',
       service_account := Some ''sa''\<rparr>) = Inr ()
   \<and> validate_storage (blank\<lparr>storage_type := Some StorageType_S3\<rparr>)
     \<noteq> Inl (Exception ''Storage type 'gcs' supports the storage configuration: --service-account'')"
  using
    validate_storage_otherwise [of "blank\<lparr>catalogs_subcommand := Some Subcommands_GET,
       catalog_name := Some ''c1'', tenant_id := Some ''t''\<rparr>"]
    validate_storage_otherwise [of "blank\<lparr>catalogs_subcommand := Some Subcommands_GET,
       catalog_name := Some ''c1'', service_account := Some ''sa''\<rparr>"]
    validate_storage_otherwise [of "blank\<lparr>storage_type := Some StorageType_S3\<rparr>"]
  by (simp add: blank_def validate_create_def validate_update_def constants_defs)

subsection \<open>\<open>execute\<close> on UPDATE\<close>

text \<open>
  What \<open>execute\<close> does on UPDATE once the catalog is fetched, the first call it makes
  in any case, and the dict of lines 164 to 167 key by key.
\<close>

lemma execute_update:
  assumes "catalogs_subcommand self = Some Subcommands_UPDATE"
    and "get_catalog api (catalog_name self) = Inr fetched"
  shows "execute self api =
    (let request = UpdateCatalogRequest (entity_version fetched)
           (fetched\<lparr>cat_properties := update_properties self\<rparr>)
           (if truthy (allowed_locations self) \<or> truthy (has_aws_storage_info self)
               \<or> truthy (has_azure_storage_info self) \<or> truthy (has_gcs_storage_info self)
            then Some (build_storage_config_info self) else None)
     in ([GetCatalog (catalog_name self), UpdateCatalog (catalog_name self) request],
         update_catalog api (catalog_name self) request))"
  using assms by (simp add: execute_def Subcommands_distinct Let_def)

lemma execute_update_fetches:
  assumes "catalogs_subcommand self = Some Subcommands_UPDATE"
  shows "\<exists>rest. fst (execute self api) = GetCatalog (catalog_name self) # rest"
  using assms by (simp add: execute_def Subcommands_distinct Let_def split: sum.splits)

lemma update_properties_lookup:
  "update_properties self k =
     (case properties self k of
        Some v \<Rightarrow> Some v
      | None \<Rightarrow> if k = ''default-base-location'' \<and> truthy (default_base_location self)
                then default_base_location self else None)"
  by (auto simp add: update_properties_def map_add_def split: option.splits)

lemma dom_update_properties:
  "dom (update_properties self) =
     (if truthy (default_base_location self) then {''default-base-location''} else {})
     \<union> dom (properties self)"
  by (auto simp add: update_properties_def split: option.splits if_splits)

text \<open>
  C1. On UPDATE, \<open>execute\<close> first calls \<open>get_catalog\<close> with the catalog name. When
  that returns a catalog, the next and last call is \<open>update_catalog\<close>, and the properties
  of the catalog it sends are the dict that holds \<open>default-base-location\<close> (only when a
  default base location is given) overlaid with the properties of the command: every
  entry of the command's properties is in it with its value. With the default base
  location \<open>loc\<close> and the properties \<open>default-base-location: loc2, b: 2\<close> the result is
  exactly \<open>default-base-location: loc2, b: 2\<close>.
\<close>

theorem execute_update_merges_properties:
  assumes "catalogs_subcommand self = Some Subcommands_UPDATE"
  shows "(\<exists>rest. fst (execute self api) = GetCatalog (catalog_name self) # rest)
    \<and> (\<forall>fetched. get_catalog api (catalog_name self) = Inr fetched \<longrightarrow>
         (\<exists>request.
            fst (execute self api)
              = [GetCatalog (catalog_name self), UpdateCatalog (catalog_name self) request]
          \<and> cat_properties (ur_catalog request)
              = (if truthy (default_base_location self)
                 then [''default-base-location'' \<mapsto> the (default_base_location self)]
                 else Map.empty) ++ properties self
          \<and> (\<forall>k v. properties self k = Some v \<longrightarrow>
                 cat_properties (ur_catalog request) k = Some v)
          \<and> (default_base_location self = Some ''loc''
               \<and> properties self = [''default-base-location'' \<mapsto> ''loc2'', ''b'' \<mapsto> ''2'']
               \<longrightarrow> cat_properties (ur_catalog request)
                     = [''default-base-location'' \<mapsto> ''loc2'', ''b'' \<mapsto> ''2''])))"
proof (intro conjI allI impI)
  show "\<exists>rest. fst (execute self api) = GetCatalog (catalog_name self) # rest"
    by (rule execute_update_fetches [OF assms])
next
  fix fetched
  assume g: "get_catalog api (catalog_name self) = Inr fetched"
  let ?request = "UpdateCatalogRequest (entity_version fetched)
           (fetched\<lparr>cat_properties := update_properties self\<rparr>)
           (if truthy (allowed_locations self) \<or> truthy (has_aws_storage_info self)
               \<or> truthy (has_azure_storage_info self) \<or> truthy (has_gcs_storage_info self)
            then Some (build_storage_config_info self) else None)"
  have e: "fst (execute self api)
      = [GetCatalog (catalog_name self), UpdateCatalog (catalog_name self) ?request]"
    by (simp add: execute_update [OF assms g] Let_def)
  have p: "cat_properties (ur_catalog ?request)
      = (if truthy (default_base_location self)
         then [''default-base-location'' \<mapsto> the (default_base_location self)]
         else Map.empty) ++ properties self"
    by (auto simp add: update_properties_def split: option.splits)
  have w: "\<forall>k v. properties self k = Some v \<longrightarrow> cat_properties (ur_catalog ?request) k = Some v"
    by (simp add: update_properties_lookup)
  have x: "default_base_location self = Some ''loc''
       \<and> properties self = [''default-base-location'' \<mapsto> ''loc2'', ''b'' \<mapsto> ''2'']
       \<longrightarrow> cat_properties (ur_catalog ?request)
             = [''default-base-location'' \<mapsto> ''loc2'', ''b'' \<mapsto> ''2'']"
    by (simp add: update_properties_def)
  show "\<exists>request.
            fst (execute self api)
              = [GetCatalog (catalog_name self), UpdateCatalog (catalog_name self) request]
          \<and> cat_properties (ur_catalog request)
              = (if truthy (default_base_location self)
                 then [''default-base-location'' \<mapsto> the (default_base_location self)]
                 else Map.empty) ++ properties self
          \<and> (\<forall>k v. properties self k = Some v \<longrightarrow>
                 cat_properties (ur_catalog request) k = Some v)
          \<and> (default_base_location self = Some ''loc''
               \<and> properties self = [''default-base-location'' \<mapsto> ''loc2'', ''b'' \<mapsto> ''2'']
               \<longrightarrow> cat_properties (ur_catalog request)
                     = [''default-base-location'' \<mapsto> ''loc2'', ''b'' \<mapsto> ''2''])"
    using e p w x by blast
qed

theorem execute_update_merges_properties_witness:
  "\<exists>request.
     fst (execute (blank\<lparr>catalogs_subcommand := Some Subcommands_UPDATE,
            catalog_name := Some ''c1'', default_base_location := Some ''loc'',
            properties := [''default-base-location'' \<mapsto> ''loc2'', ''b'' \<mapsto> ''2'']\<rparr>) example_api)
       = [GetCatalog (Some ''c1''), UpdateCatalog (Some ''c1'') request]
   \<and> cat_properties (ur_catalog request) = [''default-base-location'' \<mapsto> ''loc2'', ''b'' \<mapsto> ''2'']"
  using execute_update_merges_properties
    [of "blank\<lparr>catalogs_subcommand := Some Subcommands_UPDATE,
            catalog_name := Some ''c1'', default_base_location := Some ''loc'',
            properties := [''default-base-location'' \<mapsto> ''loc2'', ''b'' \<mapsto> ''2'']\<rparr>" example_api]
  by (auto simp add: blank_def example_api_def)

lemma build_storage_config_info_None:
  "(build_storage_config_info self = None)
     = (storage_type self \<notin> {Some StorageType_S3, Some StorageType_AZURE, Some StorageType_GCS})"
  by (auto simp add: build_storage_config_info_def split: option.splits)

text \<open>
  C6, as stated, fails: an UPDATE that sets only the service account passes \<open>validate\<close>,
  and the request it sends has the keyword \<open>storage_config_info\<close> with the value \<open>None\<close>,
  since \<open>_build_storage_config_info\<close> builds nothing without a storage type.
\<close>

theorem execute_update_null_config_counterexample:
  "truthy (service_account (blank\<lparr>catalogs_subcommand := Some Subcommands_UPDATE,
       catalog_name := Some ''c1'', service_account := Some ''sa''\<rparr>))
   \<and> validate (blank\<lparr>catalogs_subcommand := Some Subcommands_UPDATE,
       catalog_name := Some ''c1'', service_account := Some ''sa''\<rparr>) = Inr ()
   \<and> build_storage_config_info (blank\<lparr>catalogs_subcommand := Some Subcommands_UPDATE,
       catalog_name := Some ''c1'', service_account := Some ''sa''\<rparr>) = None
   \<and> execute (blank\<lparr>catalogs_subcommand := Some Subcommands_UPDATE,
       catalog_name := Some ''c1'', service_account := Some ''sa''\<rparr>) example_api
     = ([GetCatalog (Some ''c1''),
         UpdateCatalog (Some ''c1'')
           (UpdateCatalogRequest 7 (example_catalog\<lparr>cat_properties := Map.empty\<rparr>) (Some None))],
        Inr ())"
  by (simp add: blank_def validate_def validate_create_def validate_update_def
      validate_storage_def truthy_has_aws truthy_has_azure truthy_has_gcs Subcommands_distinct
      execute_def build_storage_config_info_def update_properties_def example_api_def
      example_catalog_def)

text \<open>
  C6, amended. On UPDATE with the catalog fetched, the request sent to \<open>update_catalog\<close>
  has no \<open>storage_config_info\<close> when none of the allowed locations and the AWS, AZURE and
  GCS fields is set. When one of them is set, its \<open>storage_config_info\<close> is what
  \<open>_build_storage_config_info\<close> returns: a config when the storage type is S3, AZURE or
  GCS, and \<open>None\<close> for any other storage type or none. In both cases its
  \<open>current_entity_version\<close> is the entity version of the fetched catalog.
\<close>

theorem execute_update_storage_config:
  assumes "catalogs_subcommand self = Some Subcommands_UPDATE"
    and "get_catalog api (catalog_name self) = Inr fetched"
  shows "\<exists>request.
      execute self api
        = ([GetCatalog (catalog_name self), UpdateCatalog (catalog_name self) request],
           update_catalog api (catalog_name self) request)
    \<and> ur_current_entity_version request = entity_version fetched
    \<and> ur_storage_config_info request =
        (if truthy (allowed_locations self)
            \<or> truthy (role_arn self) \<or> truthy (external_id self) \<or> truthy (user_arn self)
            \<or> truthy (tenant_id self) \<or> truthy (multi_tenant_app_name self)
            \<or> truthy (consent_url self)
            \<or> truthy (service_account self)
         then Some (build_storage_config_info self) else None)
    \<and> (storage_type self \<in> {Some StorageType_S3, Some StorageType_AZURE, Some StorageType_GCS}
         \<longrightarrow> (\<exists>config. build_storage_config_info self = Some config
                \<and> cfg_allowed_locations config = allowed_locations self))
    \<and> (storage_type self \<notin> {Some StorageType_S3, Some StorageType_AZURE, Some StorageType_GCS}
         \<longrightarrow> build_storage_config_info self = None)"
proof -
  let ?request = "UpdateCatalogRequest (entity_version fetched)
           (fetched\<lparr>cat_properties := update_properties self\<rparr>)
           (if truthy (allowed_locations self) \<or> truthy (has_aws_storage_info self)
               \<or> truthy (has_azure_storage_info self) \<or> truthy (has_gcs_storage_info self)
            then Some (build_storage_config_info self) else None)"
  have e: "execute self api
        = ([GetCatalog (catalog_name self), UpdateCatalog (catalog_name self) ?request],
           update_catalog api (catalog_name self) ?request)"
    by (simp add: execute_update [OF assms] Let_def)
  have v: "ur_current_entity_version ?request = entity_version fetched"
    by simp
  have c: "ur_storage_config_info ?request =
        (if truthy (allowed_locations self)
            \<or> truthy (role_arn self) \<or> truthy (external_id self) \<or> truthy (user_arn self)
            \<or> truthy (tenant_id self) \<or> truthy (multi_tenant_app_name self)
            \<or> truthy (consent_url self)
            \<or> truthy (service_account self)
         then Some (build_storage_config_info self) else None)"
    by (simp add: truthy_has_aws truthy_has_azure truthy_has_gcs)
  have b: "storage_type self \<in> {Some StorageType_S3, Some StorageType_AZURE, Some StorageType_GCS}
         \<longrightarrow> (\<exists>config. build_storage_config_info self = Some config
                \<and> cfg_allowed_locations config = allowed_locations self)"
    by (auto simp add: build_storage_config_info_def StorageType_distinct)
  have n: "storage_type self \<notin> {Some StorageType_S3, Some StorageType_AZURE, Some StorageType_GCS}
         \<longrightarrow> build_storage_config_info self = None"
    by (simp only: build_storage_config_info_None) simp
  show ?thesis
    using e v c b n by blast
qed

theorem execute_update_storage_config_witness:
  "(\<exists>request.
      execute (blank\<lparr>catalogs_subcommand := Some Subcommands_UPDATE,
          catalog_name := Some ''c1'',
          default_base_location := Some ''s3://new-bucket/new-location''\<rparr>) example_api
        = ([GetCatalog (Some ''c1''), UpdateCatalog (Some ''c1'') request], Inr ())
    \<and> ur_current_entity_version request = 7
    \<and> ur_storage_config_info request = None)
   \<and> (\<exists>request.
      execute (blank\<lparr>catalogs_subcommand := Some Subcommands_UPDATE,
          catalog_name := Some ''c1'', storage_type := Some StorageType_S3,
          role_arn := Some ''arn:aws:iam::1:role/r''\<rparr>) example_api
        = ([GetCatalog (Some ''c1''), UpdateCatalog (Some ''c1'') request], Inr ())
    \<and> ur_current_entity_version request = 7
    \<and> ur_storage_config_info request
        = Some (Some (AwsStorageConfigInfo ''S3'' None (Some ''arn:aws:iam::1:role/r'') None None)))
   \<and> (\<exists>request.
      execute (blank\<lparr>catalogs_subcommand := Some Subcommands_UPDATE,
          catalog_name := Some ''c1'', storage_type := Some ''file'',
          allowed_locations := Some [''file:///tmp'']\<rparr>) example_api
        = ([GetCatalog (Some ''c1''), UpdateCatalog (Some ''c1'') request], Inr ())
    \<and> ur_current_entity_version request = 7
    \<and> ur_storage_config_info request = Some None)"
proof -
  let ?a = "blank\<lparr>catalogs_subcommand := Some Subcommands_UPDATE,
          catalog_name := Some ''c1'',
          default_base_location := Some ''s3://new-bucket/new-location''\<rparr>"
  let ?b = "blank\<lparr>catalogs_subcommand := Some Subcommands_UPDATE,
          catalog_name := Some ''c1'', storage_type := Some StorageType_S3,
          role_arn := Some ''arn:aws:iam::1:role/r''\<rparr>"
  let ?c = "blank\<lparr>catalogs_subcommand := Some Subcommands_UPDATE,
          catalog_name := Some ''c1'', storage_type := Some ''file'',
          allowed_locations := Some [''file:///tmp'']\<rparr>"
  have g: "\<And>self. get_catalog example_api (catalog_name self) = Inr example_catalog"
    by (simp add: example_api_def)
  have ua: "catalogs_subcommand ?a = Some Subcommands_UPDATE" by simp
  have ub: "catalogs_subcommand ?b = Some Subcommands_UPDATE" by simp
  have uc: "catalogs_subcommand ?c = Some Subcommands_UPDATE" by simp
  have a: "\<exists>request.
      execute ?a example_api
        = ([GetCatalog (Some ''c1''), UpdateCatalog (Some ''c1'') request], Inr ())
    \<and> ur_current_entity_version request = 7
    \<and> ur_storage_config_info request = None"
    using execute_update_storage_config [OF ua g]
    by (clarsimp simp add: blank_def example_api_def example_catalog_def)
  have b: "\<exists>request.
      execute ?b example_api
        = ([GetCatalog (Some ''c1''), UpdateCatalog (Some ''c1'') request], Inr ())
    \<and> ur_current_entity_version request = 7
    \<and> ur_storage_config_info request
        = Some (Some (AwsStorageConfigInfo ''S3'' None (Some ''arn:aws:iam::1:role/r'') None None))"
    using execute_update_storage_config [OF ub g]
    by (clarsimp simp add: blank_def example_api_def example_catalog_def
        build_storage_config_info_def upper_S3 StorageType_distinct)
  have c: "\<exists>request.
      execute ?c example_api
        = ([GetCatalog (Some ''c1''), UpdateCatalog (Some ''c1'') request], Inr ())
    \<and> ur_current_entity_version request = 7
    \<and> ur_storage_config_info request = Some None"
    using execute_update_storage_config [OF uc g]
    by (clarsimp simp add: blank_def example_api_def example_catalog_def constants_defs)
  show ?thesis
    using a b c by blast
qed

text \<open>
  C9. On UPDATE with the catalog fetched, the keys of the properties sent are
  \<open>default-base-location\<close> (when a default base location is given) and the keys of the
  command's properties, nothing else. Each value comes from the command alone, so a
  property of the fetched catalog that the command does not supply again is gone.
\<close>

theorem execute_update_replaces_properties:
  assumes "catalogs_subcommand self = Some Subcommands_UPDATE"
    and "get_catalog api (catalog_name self) = Inr fetched"
  shows "\<exists>request.
      fst (execute self api)
        = [GetCatalog (catalog_name self), UpdateCatalog (catalog_name self) request]
    \<and> dom (cat_properties (ur_catalog request))
        = (if truthy (default_base_location self) then {''default-base-location''} else {})
          \<union> dom (properties self)
    \<and> (\<forall>k. cat_properties (ur_catalog request) k =
          (case properties self k of
             Some v \<Rightarrow> Some v
           | None \<Rightarrow> if k = ''default-base-location'' \<and> truthy (default_base_location self)
                     then default_base_location self else None))
    \<and> (\<forall>k. k \<in> dom (cat_properties fetched) \<and> k \<notin> dom (properties self)
            \<and> \<not> (k = ''default-base-location'' \<and> truthy (default_base_location self))
          \<longrightarrow> k \<notin> dom (cat_properties (ur_catalog request)))"
proof -
  let ?request = "UpdateCatalogRequest (entity_version fetched)
           (fetched\<lparr>cat_properties := update_properties self\<rparr>)
           (if truthy (allowed_locations self) \<or> truthy (has_aws_storage_info self)
               \<or> truthy (has_azure_storage_info self) \<or> truthy (has_gcs_storage_info self)
            then Some (build_storage_config_info self) else None)"
  have e: "fst (execute self api)
      = [GetCatalog (catalog_name self), UpdateCatalog (catalog_name self) ?request]"
    by (simp add: execute_update [OF assms] Let_def)
  have p: "cat_properties (ur_catalog ?request) = update_properties self"
    by simp
  have d: "dom (cat_properties (ur_catalog ?request))
        = (if truthy (default_base_location self) then {''default-base-location''} else {})
          \<union> dom (properties self)"
    unfolding p by (rule dom_update_properties)
  have l: "\<forall>k. cat_properties (ur_catalog ?request) k =
          (case properties self k of
             Some v \<Rightarrow> Some v
           | None \<Rightarrow> if k = ''default-base-location'' \<and> truthy (default_base_location self)
                     then default_base_location self else None)"
    unfolding p by (simp add: update_properties_lookup)
  have x: "\<forall>k. k \<in> dom (cat_properties fetched) \<and> k \<notin> dom (properties self)
            \<and> \<not> (k = ''default-base-location'' \<and> truthy (default_base_location self))
          \<longrightarrow> k \<notin> dom (cat_properties (ur_catalog ?request))"
    unfolding d by auto
  show ?thesis
    using e d l x by blast
qed

theorem execute_update_replaces_properties_witness:
  "\<exists>request.
      fst (execute (blank\<lparr>catalogs_subcommand := Some Subcommands_UPDATE,
          catalog_name := Some ''c1'', properties := [''b'' \<mapsto> ''2'']\<rparr>) example_api)
        = [GetCatalog (Some ''c1''), UpdateCatalog (Some ''c1'') request]
    \<and> dom (cat_properties (ur_catalog request)) = {''b''}
    \<and> ''a'' \<in> dom (cat_properties example_catalog)
    \<and> ''a'' \<notin> dom (cat_properties (ur_catalog request))"
proof -
  let ?w = "blank\<lparr>catalogs_subcommand := Some Subcommands_UPDATE,
          catalog_name := Some ''c1'', properties := [''b'' \<mapsto> ''2'']\<rparr>"
  have u: "catalogs_subcommand ?w = Some Subcommands_UPDATE"
    by simp
  have g: "get_catalog example_api (catalog_name ?w) = Inr example_catalog"
    by (simp add: example_api_def)
  from execute_update_replaces_properties [OF u g]
  obtain request where
    e: "fst (execute ?w example_api)
          = [GetCatalog (catalog_name ?w), UpdateCatalog (catalog_name ?w) request]"
    and d: "dom (cat_properties (ur_catalog request))
          = (if truthy (default_base_location ?w) then {''default-base-location''} else {})
            \<union> dom (properties ?w)"
    by blast
  have e': "fst (execute ?w example_api)
          = [GetCatalog (Some ''c1''), UpdateCatalog (Some ''c1'') request]"
    using e by simp
  have d': "dom (cat_properties (ur_catalog request)) = {''b''}"
    using d by (simp add: blank_def)
  have a: "''a'' \<in> dom (cat_properties example_catalog)"
    by (simp add: example_catalog_def)
  have n: "''a'' \<notin> dom (cat_properties (ur_catalog request))"
    unfolding d' by simp
  show ?thesis
    using e' d' a n by blast
qed

subsection \<open>\<open>execute\<close> on CREATE\<close>

lemma CatalogType_distinct:
  "CatalogType_INTERNAL \<noteq> CatalogType_EXTERNAL" "[] \<noteq> CatalogType_EXTERNAL"
  by (simp_all add: constants_defs)

lemma upper_Nil: "upper [] = []"
  by (simp add: upper_def)

lemma ascii_Nil: "ascii []"
  by (simp add: ascii_def)

lemma ascii_INTERNAL: "ascii CatalogType_INTERNAL"
  by (simp add: ascii_def CatalogType_INTERNAL_def)


text \<open>
  With a catalog type given, CREATE does what is expected of it. The request is an
  \<open>ExternalCatalog\<close> with the remote URL when the catalog type is the string EXTERNAL;
  for every other ASCII string (INTERNAL, the empty string, any other) it is a
  \<open>PolarisCatalog\<close> with the same name, storage config and properties and no remote URL.
  In both shapes the type is the catalog type in upper case, and the request goes to
  \<open>create_catalog\<close>.
\<close>

lemma execute_create_shape:
  assumes "catalogs_subcommand self = Some Subcommands_CREATE"
  shows "(catalog_type self = Some CatalogType_EXTERNAL \<longrightarrow>
            execute self api =
              ([CreateCatalog (CreateCatalogRequest
                  (ExternalCatalog ''EXTERNAL'' (catalog_name self)
                     (build_storage_config_info self) (remote_url self)
                     (CatalogProperties (default_base_location self) (properties self))))],
               create_catalog api (CreateCatalogRequest
                  (ExternalCatalog ''EXTERNAL'' (catalog_name self)
                     (build_storage_config_info self) (remote_url self)
                     (CatalogProperties (default_base_location self) (properties self))))))
       \<and> (\<forall>t. catalog_type self = Some t \<and> t \<noteq> CatalogType_EXTERNAL \<and> ascii t \<longrightarrow>
            execute self api =
              ([CreateCatalog (CreateCatalogRequest
                  (PolarisCatalog (upper t) (catalog_name self)
                     (build_storage_config_info self)
                     (CatalogProperties (default_base_location self) (properties self))))],
               create_catalog api (CreateCatalogRequest
                  (PolarisCatalog (upper t) (catalog_name self)
                     (build_storage_config_info self)
                     (CatalogProperties (default_base_location self) (properties self))))))"
  using assms by (simp add: execute_def py_upper_def Let_def upper_EXTERNAL)

lemma execute_create_shape_example:
  "fst (execute (blank\<lparr>catalogs_subcommand := Some Subcommands_CREATE,
       catalog_type := Some CatalogType_EXTERNAL, catalog_name := Some ''c1'',
       storage_type := Some StorageType_S3, default_base_location := Some ''s3://b/p'',
       remote_url := Some ''https://x'', role_arn := Some ''arn:aws:iam::1:role/r''\<rparr>) example_api)
     = [CreateCatalog (CreateCatalogRequest
         (ExternalCatalog ''EXTERNAL'' (Some ''c1'')
            (Some (AwsStorageConfigInfo ''S3'' None (Some ''arn:aws:iam::1:role/r'') None None))
            (Some ''https://x'') (CatalogProperties (Some ''s3://b/p'') Map.empty)))]
   \<and> fst (execute (blank\<lparr>catalogs_subcommand := Some Subcommands_CREATE,
       catalog_type := Some CatalogType_INTERNAL, catalog_name := Some ''c1'',
       storage_type := Some StorageType_S3, default_base_location := Some ''s3://b/p'',
       role_arn := Some ''arn:aws:iam::1:role/r''\<rparr>) example_api)
     = [CreateCatalog (CreateCatalogRequest
         (PolarisCatalog ''INTERNAL'' (Some ''c1'')
            (Some (AwsStorageConfigInfo ''S3'' None (Some ''arn:aws:iam::1:role/r'') None None))
            (CatalogProperties (Some ''s3://b/p'') Map.empty)))]
   \<and> fst (execute (blank\<lparr>catalogs_subcommand := Some Subcommands_CREATE,
       catalog_type := Some [], catalog_name := Some ''c1''\<rparr>) example_api)
     = [CreateCatalog (CreateCatalogRequest
         (PolarisCatalog [] (Some ''c1'') None (CatalogProperties None Map.empty)))]"
  using
    execute_create_shape [of "blank\<lparr>catalogs_subcommand := Some Subcommands_CREATE,
       catalog_type := Some CatalogType_EXTERNAL, catalog_name := Some ''c1'',
       storage_type := Some StorageType_S3, default_base_location := Some ''s3://b/p'',
       remote_url := Some ''https://x'', role_arn := Some ''arn:aws:iam::1:role/r''\<rparr>" example_api]
    execute_create_shape [of "blank\<lparr>catalogs_subcommand := Some Subcommands_CREATE,
       catalog_type := Some CatalogType_INTERNAL, catalog_name := Some ''c1'',
       storage_type := Some StorageType_S3, default_base_location := Some ''s3://b/p'',
       role_arn := Some ''arn:aws:iam::1:role/r''\<rparr>" example_api]
    execute_create_shape [of "blank\<lparr>catalogs_subcommand := Some Subcommands_CREATE,
       catalog_type := Some [], catalog_name := Some ''c1''\<rparr>" example_api]
  by (simp add: blank_def build_storage_config_info_def upper_S3 upper_INTERNAL
      upper_Nil CatalogType_distinct ascii_INTERNAL ascii_Nil)

end
